theory Spec2Isabelle
  imports Complex_Main "HOL-Library.Sublist" "HOL-Library.Log_Nat"
begin

section \<open>Python values and exceptions\<close>

text \<open>
  The values that \<^verbatim>\<open>response.json()\<close> produces: \<^verbatim>\<open>None\<close>, booleans, integers, floats,
  strings, lists and dictionaries with string keys. A dictionary is an association list in
  insertion order (\<^verbatim>\<open>field_map.items()\<close> iterates in that order); \<^verbatim>\<open>d.get\<close> and
  \<^verbatim>\<open>d[k]\<close> read it through \<open>map_of\<close>. A finite float is represented by its exact
  rational value; NaN and the infinities are outside the model.
\<close>

datatype json =
    JNull
  | JBool bool
  | JInt int
  | JFloat rat
  | JStr string
  | JList "json list"
  | JDict "(string \<times> json) list"

text \<open>Every exception of the source is a value; \<open>Inl\<close> of a result is a raise.\<close>

datatype exn =
    TypeError
  | KeyError
  | IndexError
  | AttributeError
  | OverflowError
  | ValueError string
  | NameError string
  | RequestException
  | JSONDecodeError

text \<open>Truth value of an object in a condition (\<^verbatim>\<open>if x\<close>, \<^verbatim>\<open>x and y\<close>, \<^verbatim>\<open>x or y\<close>).\<close>

fun py_truthy :: "json \<Rightarrow> bool" where
  "py_truthy JNull = False"
| "py_truthy (JBool b) = b"
| "py_truthy (JInt i) = (i \<noteq> 0)"
| "py_truthy (JFloat r) = (r \<noteq> 0)"
| "py_truthy (JStr s) = (s \<noteq> [])"
| "py_truthy (JList xs) = (xs \<noteq> [])"
| "py_truthy (JDict d) = (d \<noteq> [])"

text \<open>\<^verbatim>\<open>d.get(k, default)\<close> on a dictionary.\<close>

definition dict_get :: "(string \<times> json) list \<Rightarrow> string \<Rightarrow> json \<Rightarrow> json" where
  "dict_get d k dflt = (case map_of d k of None \<Rightarrow> dflt | Some v \<Rightarrow> v)"

text \<open>
  \<^verbatim>\<open>k in x\<close> for a string \<open>k\<close>: key membership in a dictionary, element equality in a
  list, substring in a string; TypeError on a value that is not a container.
\<close>

fun py_contains :: "string \<Rightarrow> json \<Rightarrow> exn + bool" where
  "py_contains k (JDict d) = Inr (map_of d k \<noteq> None)"
| "py_contains k (JList xs) = Inr (JStr k \<in> set xs)"
| "py_contains k (JStr s) = Inr (sublist k s)"
| "py_contains k _ = Inl TypeError"

text \<open>\<^verbatim>\<open>x[k]\<close> with a string subscript.\<close>

fun py_getitem_str :: "json \<Rightarrow> string \<Rightarrow> exn + json" where
  "py_getitem_str (JDict d) k = (case map_of d k of None \<Rightarrow> Inl KeyError | Some v \<Rightarrow> Inr v)"
| "py_getitem_str _ k = Inl TypeError"

text \<open>Sequence indexing: a negative index counts from the end, out of range raises.\<close>

definition seq_index :: "'a list \<Rightarrow> int \<Rightarrow> exn + 'a" where
  "seq_index xs i =
     (if 0 \<le> i \<and> i < int (length xs) then Inr (xs ! nat i)
      else if i < 0 \<and> - int (length xs) \<le> i then Inr (xs ! nat (int (length xs) + i))
      else Inl IndexError)"

text \<open>
  \<^verbatim>\<open>x[i]\<close> with an integer subscript. The keys of a decoded dictionary are strings, so an
  integer is never one of them.
\<close>

fun py_getitem_int :: "json \<Rightarrow> int \<Rightarrow> exn + json" where
  "py_getitem_int (JList xs) i = seq_index xs i"
| "py_getitem_int (JStr s) i =
     (case seq_index s i of Inl e \<Rightarrow> Inl e | Inr c \<Rightarrow> Inr (JStr [c]))"
| "py_getitem_int (JDict d) i = Inl KeyError"
| "py_getitem_int _ i = Inl TypeError"

fun py_len :: "json \<Rightarrow> exn + nat" where
  "py_len (JList xs) = Inr (length xs)"
| "py_len (JStr s) = Inr (length s)"
| "py_len (JDict d) = Inr (length d)"
| "py_len _ = Inl TypeError"

text \<open>\<^verbatim>\<open>x.items()\<close>: only a dictionary has the attribute.\<close>

fun py_items :: "json \<Rightarrow> exn + (string \<times> json) list" where
  "py_items (JDict d) = Inr d"
| "py_items _ = Inl AttributeError"

section \<open>tempest.py: the rainfall extractor\<close>

definition PRECIP_KEY :: string where
  "PRECIP_KEY = ''precip_accum_local_yesterday''"

text \<open>
  The pattern of lines 114--118 and 121--125:
  \<^verbatim>\<open>if s and 'precip_accum_local_yesterday' in s: return s['precip_accum_local_yesterday']\<close>.
  \<open>Inr (Some v)\<close> is the return of \<open>v\<close>, \<open>Inr None\<close> falls through to the next check.
\<close>

definition probe_summary :: "json \<Rightarrow> exn + json option" where
  "probe_summary s =
     (if \<not> py_truthy s then Inr None
      else (case py_contains PRECIP_KEY s of
              Inl e \<Rightarrow> Inl e
            | Inr False \<Rightarrow> Inr None
            | Inr True \<Rightarrow>
                (case py_getitem_str s PRECIP_KEY of
                   Inl e \<Rightarrow> Inl e
                 | Inr v \<Rightarrow> Inr (Some v))))"

text \<open>
  The loop of lines 147--150 over \<^verbatim>\<open>field_map.items()\<close>: the first entry whose field
  name is the key gives the index, converted by \<^verbatim>\<open>int(idx)\<close>. The builtin \<^verbatim>\<open>int\<close> on a
  string is not modelled: it is the parameter \<open>py_int\<close> of the extractor, which returns
  the integer or the exception that \<^verbatim>\<open>int\<close> raises.
\<close>

fun find_field_index ::
  "(string \<Rightarrow> exn + int) \<Rightarrow> (string \<times> json) list \<Rightarrow> exn + int option" where
  "find_field_index py_int [] = Inr None"
| "find_field_index py_int ((idx, field_name) # rest) =
     (if field_name = JStr PRECIP_KEY
      then (case py_int idx of Inl e \<Rightarrow> Inl e | Inr i \<Rightarrow> Inr (Some i))
      else find_field_index py_int rest)"

text \<open>Lines 144--154: the array-encoded latest observation, read through \<^verbatim>\<open>field_map\<close>.\<close>

definition probe_field_map ::
  "(string \<Rightarrow> exn + int) \<Rightarrow> (string \<times> json) list \<Rightarrow> json list \<Rightarrow> exn + json option" where
  "probe_field_map py_int d latest =
     (let field_map = dict_get d ''field_map'' (JDict [])
      in if \<not> py_truthy field_map then Inr None
         else (case py_items field_map of
                 Inl e \<Rightarrow> Inl e
               | Inr entries \<Rightarrow>
                   (case find_field_index py_int entries of
                      Inl e \<Rightarrow> Inl e
                    | Inr None \<Rightarrow> Inr None
                    | Inr (Some field_index) \<Rightarrow>
                        (if int (length latest) > field_index
                         then (case seq_index latest field_index of
                                 Inl e \<Rightarrow> Inl e
                               | Inr v \<Rightarrow> Inr (Some v))
                         else Inr None))))"

text \<open>Lines 128--154: the latest observation.\<close>

definition probe_latest_obs ::
  "(string \<Rightarrow> exn + int) \<Rightarrow> (string \<times> json) list \<Rightarrow> exn + json option" where
  "probe_latest_obs py_int d =
     (let obs = dict_get d ''obs'' (JList [])
      in if \<not> py_truthy obs then Inr None
         else (case py_len obs of
                 Inl e \<Rightarrow> Inl e
               | Inr n \<Rightarrow>
                  (if \<not> n > 0 then Inr None
                   else (case py_getitem_int obs (- 1) of
                           Inl e \<Rightarrow> Inl e
                         | Inr latest_obs \<Rightarrow>
                             (case latest_obs of
                                JDict m \<Rightarrow>
                                  (case map_of m PRECIP_KEY of
                                     Some v \<Rightarrow> Inr (Some v)
                                   | None \<Rightarrow> Inr None)
                              | JList ys \<Rightarrow>
                                  (if length ys > 0 then probe_field_map py_int d ys
                                   else Inr None)
                              | _ \<Rightarrow> Inr None)))))"

text \<open>The body of the \<^verbatim>\<open>try\<close> block, lines 111--164.\<close>

definition extract_body :: "(string \<Rightarrow> exn + int) \<Rightarrow> json \<Rightarrow> exn + json" where
  "extract_body py_int api_response =
     (case api_response of
        JDict d \<Rightarrow>
          (case probe_summary (dict_get d ''summary'' (JDict [])) of
             Inl e \<Rightarrow> Inl e
           | Inr (Some v) \<Rightarrow> Inr v
           | Inr None \<Rightarrow>
               (case probe_summary (dict_get d ''obs_summary'' (JDict [])) of
                  Inl e \<Rightarrow> Inl e
                | Inr (Some v) \<Rightarrow> Inr v
                | Inr None \<Rightarrow>
                    (case probe_latest_obs py_int d of
                       Inl e \<Rightarrow> Inl e
                     | Inr (Some v) \<Rightarrow> Inr v
                     | Inr None \<Rightarrow>
                         (case map_of d PRECIP_KEY of
                            Some v \<Rightarrow> Inr v
                          | None \<Rightarrow> Inr JNull))))
      | _ \<Rightarrow> Inr JNull)"

text \<open>
  The whole function: \<^verbatim>\<open>except Exception\<close> (line 166) turns every raise of the body into
  the return of \<^verbatim>\<open>None\<close>.
\<close>

definition extract_precip_accum_local_yesterday ::
  "(string \<Rightarrow> exn + int) \<Rightarrow> json \<Rightarrow> exn + json" where
  "extract_precip_accum_local_yesterday py_int api_response =
     (case extract_body py_int api_response of
        Inl e \<Rightarrow> Inr JNull
      | Inr v \<Rightarrow> Inr v)"

section \<open>tempest.py: the fetcher\<close>

text \<open>
  What one HTTP request can come to: no response at all (connection error or timeout), a
  response that \<^verbatim>\<open>raise_for_status\<close> rejects (its body decodable or not), a body that is
  not JSON, or a decoded body.
\<close>

datatype http_outcome =
    Transport_failure
  | Http_error "json option"
  | Undecodable
  | Body json

text \<open>The GET of lines 38--46: the station in the URL, the token and the time window.\<close>

record tempest_request =
  station_id :: string
  token :: string
  time_start :: int
  time_end :: int

text \<open>The \<^verbatim>\<open>logger.warning\<close> calls of the normalization loop, with the index they report.\<close>

datatype warning =
    Unexpected_observation_format nat
  | Error_processing_observation nat exn

text \<open>Iteration over a value: elements of a list, characters of a string, keys of a dict.\<close>

fun py_iter :: "json \<Rightarrow> exn + json list" where
  "py_iter (JList xs) = Inr xs"
| "py_iter (JStr s) = Inr (map (\<lambda>c. JStr [c]) s)"
| "py_iter (JDict d) = Inr (map (\<lambda>kv. JStr (fst kv)) d)"
| "py_iter _ = Inl TypeError"

text \<open>\<^verbatim>\<open>a or b\<close>.\<close>

definition py_or :: "json \<Rightarrow> json \<Rightarrow> json" where
  "py_or a b = (if py_truthy a then a else b)"

definition observation_wrapper :: "json \<Rightarrow> json \<Rightarrow> json" where
  "observation_wrapper ts obs = JDict [(''timestamp'', ts), (''observation'', obs)]"

text \<open>
  The body of the loop's \<^verbatim>\<open>try\<close> (lines 65--80) for the observation at index \<open>idx\<close>:
  the wrappers it appends and the warnings it logs.
\<close>

definition normalize_step :: "nat \<Rightarrow> json \<Rightarrow> exn + (json list \<times> warning list)" where
  "normalize_step idx obs =
     (case obs of
        JList ys \<Rightarrow>
          (if length ys > 0
           then (case seq_index ys 0 of
                   Inl e \<Rightarrow> Inl e
                 | Inr ts \<Rightarrow> Inr ([observation_wrapper ts obs], []))
           else Inr ([], []))
      | JDict m \<Rightarrow>
          Inr ([observation_wrapper
                  (py_or (dict_get m ''timestamp'' JNull)
                     (py_or (dict_get m ''time'' JNull) (dict_get m ''ts'' JNull)))
                  obs], [])
      | _ \<Rightarrow> Inr ([], [Unexpected_observation_format idx]))"

text \<open>
  The loop of lines 62--83 from index \<open>idx\<close> on; an IndexError, KeyError or TypeError of
  the step is logged and the loop continues.
\<close>

fun normalize_from :: "nat \<Rightarrow> json list \<Rightarrow> json list \<times> warning list" where
  "normalize_from idx [] = ([], [])"
| "normalize_from idx (obs # rest) =
     (let (ws, logs) =
            (case normalize_step idx obs of
               Inl e \<Rightarrow> ([], [Error_processing_observation idx e])
             | Inr r \<Rightarrow> r);
          (ws', logs') = normalize_from (Suc idx) rest
      in (ws @ ws', logs @ logs'))"

text \<open>Lines 52--57: where the observations are taken from.\<close>

definition response_observations :: "json \<Rightarrow> json" where
  "response_observations data =
     (case data of
        JDict d \<Rightarrow> dict_get d ''obs'' (JList [])
      | JList xs \<Rightarrow> data
      | _ \<Rightarrow> JList [])"

text \<open>
  Lines 52--85, from the decoded body to the returned pair. \<^verbatim>\<open>len(observations)\<close> of
  line 59 raises on a value without a length, and no handler of the function catches it.
\<close>

definition normalize_response :: "json \<Rightarrow> exn + ((json list \<times> json) \<times> warning list)" where
  "normalize_response data =
     (let observations = response_observations data
      in case py_len observations of
           Inl e \<Rightarrow> Inl e
         | Inr n \<Rightarrow>
             (case py_iter observations of
                Inl e \<Rightarrow> Inl e
              | Inr xs \<Rightarrow>
                  (let (rainfall_observations, logs) = normalize_from 0 xs
                   in Inr ((rainfall_observations, data), logs))))"

text \<open>
  Lines 31--33: the start of the previous UTC day, in epoch seconds, from the clock reading
  \<open>now\<close> (epoch seconds).
\<close>

definition yesterday_start :: "int \<Rightarrow> int" where
  "yesterday_start now = ((now - 86400) div 86400) * 86400"

definition get_yesterday_rainfall_data ::
  "(tempest_request \<Rightarrow> http_outcome) \<Rightarrow> int \<Rightarrow> string \<Rightarrow> string
     \<Rightarrow> exn + ((json list \<times> json) \<times> warning list)" where
  "get_yesterday_rainfall_data http_get now tok station =
     (case http_get \<lparr>station_id = station, token = tok,
                      time_start = yesterday_start now,
                      time_end = yesterday_start now + 86400\<rparr> of
        Transport_failure \<Rightarrow> Inl RequestException
      | Http_error b \<Rightarrow> Inl RequestException
      | Undecodable \<Rightarrow> Inl JSONDecodeError
      | Body data \<Rightarrow> normalize_response data)"

section \<open>Floating point\<close>

text \<open>
  A Python float is an IEEE binary64 number. Its arithmetic is the exact operation followed
  by rounding to the nearest representable number, ties to the even significand; a finite
  float is modelled by its exact rational value and \<open>binary64\<close> is that rounding (with
  gradual underflow below \<open>2\<^sup>-\<^sup>1\<^sup>0\<^sup>2\<^sup>2\<close>). Results beyond the largest finite float
  are outside the model.
\<close>

definition round_half_even :: "rat \<Rightarrow> int" where
  "round_half_even x =
     (let f = \<lfloor>x\<rfloor>; d = x - of_int f
      in if d < 1 / 2 then f
         else if d > 1 / 2 then f + 1
         else if even f then f else f + 1)"

definition pow2 :: "int \<Rightarrow> rat" where
  "pow2 e = (if 0 \<le> e then 2 ^ nat e else 1 / 2 ^ nat (- e))"

text \<open>The exponent \<open>e\<close> with \<open>2\<^sup>e \<le> x < 2\<^sup>e\<^sup>+\<^sup>1\<close>, for positive \<open>x\<close>.\<close>

definition floor_log2 :: "rat \<Rightarrow> int" where
  "floor_log2 x = (if 1 \<le> x then bitlen \<lfloor>x\<rfloor> - 1 else - bitlen (\<lceil>1 / x\<rceil> - 1))"

definition binary64 :: "rat \<Rightarrow> rat" where
  "binary64 x =
     (if x = 0 then 0
      else let e = max (floor_log2 \<bar>x\<bar>) (- 1022); q = pow2 (e - 52)
           in of_int (round_half_even (x / q)) * q)"

text \<open>
  Correctly rounded conversion to \<open>n\<close> decimals of the exact value, as \<^verbatim>\<open>"%.2f" % x\<close>
  prints it and as \<^verbatim>\<open>round(x, n)\<close> computes it before converting back to a float.
\<close>

definition decimal_round :: "nat \<Rightarrow> rat \<Rightarrow> rat" where
  "decimal_round n x = of_int (round_half_even (x * 10 ^ n)) / 10 ^ n"

definition py_round :: "rat \<Rightarrow> nat \<Rightarrow> rat" where
  "py_round x n = binary64 (decimal_round n x)"

text \<open>Conversion of an integer operand; too large an integer raises OverflowError.\<close>

definition py_float_of_int :: "int \<Rightarrow> exn + rat" where
  "py_float_of_int i =
     (let r = binary64 (of_int i)
      in if \<bar>r\<bar> \<ge> 2 ^ 1024 then Inl OverflowError else Inr r)"

text \<open>
  \<^verbatim>\<open>x * c\<close> for a float \<open>c\<close>: an integer or boolean operand is converted first, a
  sequence, a dictionary or \<^verbatim>\<open>None\<close> raises TypeError.
\<close>

fun py_mul_float :: "json \<Rightarrow> rat \<Rightarrow> exn + rat" where
  "py_mul_float (JFloat x) c = Inr (binary64 (x * c))"
| "py_mul_float (JInt i) c =
     (case py_float_of_int i of Inl e \<Rightarrow> Inl e | Inr x \<Rightarrow> Inr (binary64 (x * c)))"
| "py_mul_float (JBool b) c = Inr (binary64 ((if b then 1 else 0) * c))"
| "py_mul_float _ c = Inl TypeError"

section \<open>agriwebb.py\<close>

definition RAIN_GAUGE_NAME :: string where
  "RAIN_GAUGE_NAME = ''Tempest''"

definition RAIN_GAUGE_UNIT :: string where
  "RAIN_GAUGE_UNIT = ''inch''"

definition RAIN_GAUGE_MODE :: string where
  "RAIN_GAUGE_MODE = ''cumulative''"

text \<open>
  The two GraphQL documents the module posts, by the values formatted into them: the
  \<^verbatim>\<open>mapFeatures\<close> query of lines 78--90 carries the \<^verbatim>\<open>type\<close> and \<^verbatim>\<open>farmId\<close> equality
  filters; the \<^verbatim>\<open>addRainfalls\<close> mutation of lines 148--164 carries its six input fields
  (\<^verbatim>\<open>%s\<close> prints any sensor identifier, \<^verbatim>\<open>%.2f\<close> the value with two decimals).
\<close>

record add_rainfall_input =
  rf_farmId :: string
  rf_sensorId :: json
  rf_value :: rat
  rf_unit :: string
  rf_mode :: string
  rf_time :: int

datatype graphql =
    MapFeatures_query string string
  | AddRainfalls_mutation add_rainfall_input

record agriwebb_post =
  x_api_key :: string
  query :: graphql

text \<open>
  The remote API within one invocation: its state and the posts received so far, in order.
  How it answers is the parameter \<open>api\<close> of the functions below.
\<close>

record 's agriwebb =
  api_state :: 's
  posted :: "agriwebb_post list"

definition requests_post ::
  "(agriwebb_post \<Rightarrow> 's \<Rightarrow> http_outcome \<times> 's) \<Rightarrow> agriwebb_post \<Rightarrow> 's agriwebb
     \<Rightarrow> http_outcome \<times> 's agriwebb" where
  "requests_post api req w =
     (let (outcome, s') = api req (api_state w)
      in (outcome, \<lparr>api_state = s', posted = posted w @ [req]\<rparr>))"

text \<open>
  What \<^verbatim>\<open>raise_for_status\<close>, \<^verbatim>\<open>response.json()\<close> and the two handlers make of an outcome
  (lines 98--118 and 175--203): both handlers re-raise; the first one decodes the body of a
  rejected response for its log line, which raises in its turn on a body that is not JSON.
\<close>

fun decoded_body :: "http_outcome \<Rightarrow> exn + json" where
  "decoded_body Transport_failure = Inl RequestException"
| "decoded_body (Http_error None) = Inl JSONDecodeError"
| "decoded_body (Http_error (Some b)) = Inl RequestException"
| "decoded_body Undecodable = Inl JSONDecodeError"
| "decoded_body (Body result) = Inr result"

text \<open>Lines 107--110 on the decoded body.\<close>

definition first_feature_id :: "json \<Rightarrow> exn + json" where
  "first_feature_id result =
     (case py_getitem_str result ''data'' of
        Inl e \<Rightarrow> Inl e
      | Inr data \<Rightarrow>
          (case py_getitem_str data ''mapFeatures'' of
             Inl e \<Rightarrow> Inl e
           | Inr features \<Rightarrow>
               (if features = JNull then Inr JNull
                else (case py_len features of
                        Inl e \<Rightarrow> Inl e
                      | Inr n \<Rightarrow>
                          (if n > 0
                           then (case py_getitem_int features 0 of
                                   Inl e \<Rightarrow> Inl e
                                 | Inr feature \<Rightarrow> py_getitem_str feature ''id'')
                           else Inr JNull)))))"

definition get_rain_gauge_sensor_id ::
  "(agriwebb_post \<Rightarrow> 's \<Rightarrow> http_outcome \<times> 's) \<Rightarrow> string \<Rightarrow> string \<Rightarrow> 's agriwebb
     \<Rightarrow> (exn + json) \<times> 's agriwebb" where
  "get_rain_gauge_sensor_id api access_token farm_id w =
     (let (outcome, w') =
            requests_post api
              \<lparr>x_api_key = access_token, query = MapFeatures_query ''RAIN_GAUGE'' farm_id\<rparr> w
      in (case decoded_body outcome of
            Inl e \<Rightarrow> (Inl e, w')
          | Inr result \<Rightarrow> (first_feature_id result, w')))"

text \<open>
  Line 141 calls \<^verbatim>\<open>create_rain_gauge\<close>. The module neither defines nor imports that name,
  so evaluating the call raises NameError before anything is sent.
\<close>

definition create_rain_gauge ::
  "(agriwebb_post \<Rightarrow> 's \<Rightarrow> http_outcome \<times> 's) \<Rightarrow> string \<Rightarrow> string \<Rightarrow> 's agriwebb
     \<Rightarrow> (exn + unit) \<times> 's agriwebb" where
  "create_rain_gauge api access_token farm_id w = (Inl (NameError ''create_rain_gauge''), w)"

text \<open>Lines 137--146 of \<^verbatim>\<open>update_rainfall\<close>: the sensor identifier to publish under.\<close>

definition resolve_sensor_id ::
  "(agriwebb_post \<Rightarrow> 's \<Rightarrow> http_outcome \<times> 's) \<Rightarrow> string \<Rightarrow> string \<Rightarrow> 's agriwebb
     \<Rightarrow> (exn + json) \<times> 's agriwebb" where
  "resolve_sensor_id api access_token farm_id w =
     (case get_rain_gauge_sensor_id api access_token farm_id w of
        (Inl e, w1) \<Rightarrow> (Inl e, w1)
      | (Inr sensor_id, w1) \<Rightarrow>
          (if sensor_id = JNull
           then (case create_rain_gauge api access_token farm_id w1 of
                   (Inl e, w2) \<Rightarrow> (Inl e, w2)
                 | (Inr u, w2) \<Rightarrow>
                     (case get_rain_gauge_sensor_id api access_token farm_id w2 of
                        (Inl e, w3) \<Rightarrow> (Inl e, w3)
                      | (Inr sensor_id', w3) \<Rightarrow>
                          (if sensor_id' = JNull
                           then (Inl (ValueError
                                   (''Rain gauge sensor ID not found for name: ''
                                    @ RAIN_GAUGE_NAME)), w3)
                           else (Inr sensor_id', w3))))
           else (Inr sensor_id, w1)))"

text \<open>
  Line 189: \<^verbatim>\<open>[err.get('message', str(err)) for err in errors]\<close>. Only a dictionary has
  \<^verbatim>\<open>get\<close>. The text \<^verbatim>\<open>str(err)\<close> of a dictionary is not modelled: \<open>py_str\<close> is a
  parameter.
\<close>

fun error_messages :: "(json \<Rightarrow> string) \<Rightarrow> json list \<Rightarrow> exn + json list" where
  "error_messages py_str [] = Inr []"
| "error_messages py_str (err # rest) =
     (case err of
        JDict m \<Rightarrow>
          (case error_messages py_str rest of
             Inl e \<Rightarrow> Inl e
           | Inr ms \<Rightarrow> Inr (dict_get m ''message'' (JStr (py_str err)) # ms))
      | _ \<Rightarrow> Inl AttributeError)"

text \<open>\<^verbatim>\<open>sep.join(items)\<close>: every item must be a string.\<close>

fun py_join :: "string \<Rightarrow> json list \<Rightarrow> exn + string" where
  "py_join sep [] = Inr []"
| "py_join sep [JStr s] = Inr s"
| "py_join sep (JStr s # rest) =
     (case py_join sep rest of Inl e \<Rightarrow> Inl e | Inr t \<Rightarrow> Inr (s @ sep @ t))"
| "py_join sep (x # rest) = Inl TypeError"

text \<open>Lines 187--194 on the decoded body of the mutation's response.\<close>

definition check_graphql_errors :: "(json \<Rightarrow> string) \<Rightarrow> json \<Rightarrow> exn + json" where
  "check_graphql_errors py_str result =
     (case py_contains ''errors'' result of
        Inl e \<Rightarrow> Inl e
      | Inr False \<Rightarrow> Inr result
      | Inr True \<Rightarrow>
          (case py_getitem_str result ''errors'' of
             Inl e \<Rightarrow> Inl e
           | Inr errors \<Rightarrow>
               (case py_iter errors of
                  Inl e \<Rightarrow> Inl e
                | Inr errs \<Rightarrow>
                    (case error_messages py_str errs of
                       Inl e \<Rightarrow> Inl e
                     | Inr ms \<Rightarrow>
                         (case py_join '', '' ms of
                            Inl e \<Rightarrow> Inl e
                          | Inr joined \<Rightarrow>
                              Inl (ValueError (''GraphQL errors: '' @ joined)))))))"

text \<open>Lines 148--173 of \<^verbatim>\<open>update_rainfall\<close>: the mutation, its headers and payload.\<close>

definition rainfall_mutation :: "string \<Rightarrow> string \<Rightarrow> json \<Rightarrow> rat \<Rightarrow> int \<Rightarrow> agriwebb_post" where
  "rainfall_mutation access_token farm_id sensor_id rainfall_inches time_ms =
     \<lparr>x_api_key = access_token,
      query = AddRainfalls_mutation
        \<lparr>rf_farmId = farm_id, rf_sensorId = sensor_id,
         rf_value = decimal_round 2 rainfall_inches,
         rf_unit = RAIN_GAUGE_UNIT, rf_mode = RAIN_GAUGE_MODE,
         rf_time = time_ms\<rparr>\<rparr>"

text \<open>Lines 175--203 of \<^verbatim>\<open>update_rainfall\<close>: the post and its response.\<close>

definition post_rainfall ::
  "(json \<Rightarrow> string) \<Rightarrow> (agriwebb_post \<Rightarrow> 's \<Rightarrow> http_outcome \<times> 's) \<Rightarrow> string \<Rightarrow> string
     \<Rightarrow> json \<Rightarrow> rat \<Rightarrow> int \<Rightarrow> 's agriwebb \<Rightarrow> (exn + json) \<times> 's agriwebb" where
  "post_rainfall py_str api access_token farm_id sensor_id rainfall_inches time_ms w =
     (let (outcome, w') =
            requests_post api
              (rainfall_mutation access_token farm_id sensor_id rainfall_inches time_ms) w
      in (case decoded_body outcome of
            Inl e \<Rightarrow> (Inl e, w')
          | Inr result \<Rightarrow> (check_graphql_errors py_str result, w')))"

definition update_rainfall ::
  "(json \<Rightarrow> string) \<Rightarrow> (agriwebb_post \<Rightarrow> 's \<Rightarrow> http_outcome \<times> 's) \<Rightarrow> string \<Rightarrow> string
     \<Rightarrow> rat \<Rightarrow> int \<Rightarrow> 's agriwebb \<Rightarrow> (exn + json) \<times> 's agriwebb" where
  "update_rainfall py_str api access_token farm_id rainfall_inches time_ms w =
     (case resolve_sensor_id api access_token farm_id w of
        (Inl e, w1) \<Rightarrow> (Inl e, w1)
      | (Inr sensor_id, w1) \<Rightarrow>
          post_rainfall py_str api access_token farm_id sensor_id rainfall_inches time_ms w1)"

section \<open>utils.py\<close>

text \<open>
  What the parameter store does with one lookup: a response holding
  \<^verbatim>\<open>['Parameter']['Value']\<close>, a response without it, a \<^verbatim>\<open>ClientError\<close> (its error code
  and its text), or any other exception (its text).
\<close>

datatype ssm_outcome =
    SSM_value string
  | SSM_no_value
  | SSM_client_error string string
  | SSM_other_error string

text \<open>
  The ValueError of line 35 is raised inside the \<^verbatim>\<open>try\<close>, so the handler of line 48
  wraps it once more.
\<close>

definition get_parameter_from_ssm :: "(string \<Rightarrow> ssm_outcome) \<Rightarrow> string \<Rightarrow> exn + string" where
  "get_parameter_from_ssm ssm parameter_name =
     (case ssm parameter_name of
        SSM_value v \<Rightarrow> Inr v
      | SSM_no_value \<Rightarrow>
          Inl (ValueError (''Unexpected error retrieving SSM parameter '' @ [CHR 39]
                 @ parameter_name @ [CHR 39] @ '': ''
                 @ ''Unexpected SSM response structure for parameter '' @ [CHR 39]
                 @ parameter_name @ [CHR 39]))
      | SSM_client_error error_code text \<Rightarrow>
          (if error_code = ''ParameterNotFound''
           then Inl (ValueError (''SSM parameter '' @ [CHR 39] @ parameter_name @ [CHR 39]
                       @ '' not found''))
           else if error_code = ''AccessDeniedException''
           then Inl (ValueError (''Access denied to SSM parameter '' @ [CHR 39]
                       @ parameter_name @ [CHR 39] @ ''. Check IAM permissions.''))
           else Inl (ValueError (''Error retrieving SSM parameter '' @ [CHR 39]
                       @ parameter_name @ [CHR 39] @ '': '' @ text)))
      | SSM_other_error text \<Rightarrow>
          Inl (ValueError (''Unexpected error retrieving SSM parameter '' @ [CHR 39]
                 @ parameter_name @ [CHR 39] @ '': '' @ text)))"

section \<open>main.py: the handler\<close>

definition TEMPEST_TOKEN_PARAMETER :: string where
  "TEMPEST_TOKEN_PARAMETER = ''bonesranch.agriwebb-rain.tempest.token''"

definition TEMPEST_STATION_ID_PARAMETER :: string where
  "TEMPEST_STATION_ID_PARAMETER = ''bonesranch.agriwebb-rain.tempest.station_id''"

definition AGRIWEBB_ACCESS_TOKEN_PARAMETER :: string where
  "AGRIWEBB_ACCESS_TOKEN_PARAMETER = ''bonesranch.agriwebb-rain.agriwebb.access_token''"

definition AGRIWEBB_FARM_ID_PARAMETER :: string where
  "AGRIWEBB_FARM_ID_PARAMETER = ''bonesranch.agriwebb-rain.agriwebb.farm_id''"

text \<open>Line 28: \<^verbatim>\<open>1 / 25.4\<close>, the float division of \<open>1\<close> by the float nearest to \<open>25.4\<close>.\<close>

definition MM_TO_INCHES :: rat where
  "MM_TO_INCHES = binary64 (1 / binary64 (254 / 10))"

text \<open>Line 92: \<^verbatim>\<open>round(rainfall_mm * MM_TO_INCHES, 3)\<close>.\<close>

definition mm_to_inches :: "json \<Rightarrow> exn + rat" where
  "mm_to_inches rainfall_mm =
     (case py_mul_float rainfall_mm MM_TO_INCHES of
        Inl e \<Rightarrow> Inl e
      | Inr x \<Rightarrow> Inr (py_round x 3))"

subsection \<open>The date of a day number\<close>

text \<open>
  \<^verbatim>\<open>date.isoformat()\<close> of the day \<open>z\<close> days after 1970-01-01, in the proleptic Gregorian
  calendar, for the years 1 to 9999 that \<^verbatim>\<open>datetime\<close> covers.
\<close>

fun zero_pad :: "nat \<Rightarrow> nat \<Rightarrow> string" where
  "zero_pad 0 n = []"
| "zero_pad (Suc w) n = zero_pad w (n div 10) @ [char_of (48 + n mod 10)]"

definition civil_from_days :: "int \<Rightarrow> int \<times> int \<times> int" where
  "civil_from_days z =
     (let z' = z + 719468;
          era = z' div 146097;
          doe = z' - era * 146097;
          yoe = (doe - doe div 1460 + doe div 36524 - doe div 146096) div 365;
          doy = doe - (365 * yoe + yoe div 4 - yoe div 100);
          mp = (5 * doy + 2) div 153;
          d = doy - (153 * mp + 2) div 5 + 1;
          m = (if mp < 10 then mp + 3 else mp - 9);
          y = yoe + era * 400 + (if m \<le> 2 then 1 else 0)
      in (y, m, d))"

definition isoformat :: "int \<Rightarrow> string" where
  "isoformat z =
     (let (y, m, d) = civil_from_days z
      in zero_pad 4 (nat y) @ ''-'' @ zero_pad 2 (nat m) @ ''-'' @ zero_pad 2 (nat d))"

subsection \<open>\<^verbatim>\<open>lambda_handler\<close>\<close>

text \<open>
  What one invocation meets: the parameter store, the weather API, the farm API, and the
  clock as read by the fetcher (line 31 of tempest.py) and by the handler (line 96), in
  epoch seconds.
\<close>

record 's services =
  ssm :: "string \<Rightarrow> ssm_outcome"
  tempest_get :: "tempest_request \<Rightarrow> http_outcome"
  agriwebb_api :: "agriwebb_post \<Rightarrow> 's \<Rightarrow> http_outcome \<times> 's"
  now_at_fetch :: int
  now_at_handler :: int

text \<open>The result dictionaries of lines 121--130 and 135--142.\<close>

definition success_result :: "json \<Rightarrow> json \<Rightarrow> rat \<Rightarrow> string \<Rightarrow> json list \<Rightarrow> json" where
  "success_result event_time rainfall_mm rainfall_inches date_str rainfall_observations =
     JDict [(''status'', JStr ''success''),
            (''message'', JStr ''Successfully retrieved and updated rainfall data''),
            (''event_time'', event_time),
            (''rainfall_mm'', rainfall_mm),
            (''rainfall_inches'', JFloat rainfall_inches),
            (''date'', JStr date_str),
            (''observations_count'', JInt (int (length rainfall_observations))),
            (''agriwebb_updated'', JBool True)]"

definition partial_result :: "json \<Rightarrow> json list \<Rightarrow> json" where
  "partial_result event_time rainfall_observations =
     JDict [(''status'', JStr ''partial_success''),
            (''message'',
               JStr ''Retrieved observations but could not extract rainfall amount''),
            (''event_time'', event_time),
            (''observations_count'', JInt (int (length rainfall_observations))),
            (''rainfall_mm'', JNull),
            (''agriwebb_updated'', JBool False)]"

text \<open>Lines 88--130: the branch taken when a rainfall amount was extracted.\<close>

definition publish_rainfall ::
  "(json \<Rightarrow> string) \<Rightarrow> 's services \<Rightarrow> json \<Rightarrow> json list \<Rightarrow> json \<Rightarrow> 's agriwebb
     \<Rightarrow> (exn + json) \<times> 's agriwebb" where
  "publish_rainfall py_str env event_time rainfall_observations rainfall_mm w =
     (case mm_to_inches rainfall_mm of
        Inl e \<Rightarrow> (Inl e, w)
      | Inr rainfall_inches \<Rightarrow>
          (let yesterday = (now_at_handler env - 86400) div 86400;
               date_str = isoformat yesterday;
               time_ms = yesterday * 86400 * 1000
           in case get_parameter_from_ssm (ssm env) AGRIWEBB_ACCESS_TOKEN_PARAMETER of
                Inl e \<Rightarrow> (Inl e, w)
              | Inr agriwebb_access_token \<Rightarrow>
                  (case get_parameter_from_ssm (ssm env) AGRIWEBB_FARM_ID_PARAMETER of
                     Inl e \<Rightarrow> (Inl e, w)
                   | Inr agriwebb_farm_id \<Rightarrow>
                       (case update_rainfall py_str (agriwebb_api env) agriwebb_access_token
                               agriwebb_farm_id rainfall_inches time_ms w of
                          (Inl e, w') \<Rightarrow> (Inl e, w')
                        | (Inr agriwebb_result, w') \<Rightarrow>
                            (Inr (success_result event_time rainfall_mm rainfall_inches
                                    date_str rainfall_observations), w')))))"

text \<open>
  The handler. \<^verbatim>\<open>event.get\<close> needs a dictionary; every exception is logged and re-raised
  (lines 147--150). The builtins \<^verbatim>\<open>str\<close> and \<^verbatim>\<open>int\<close> that the publisher and the
  extractor use are its first two parameters.
\<close>

definition lambda_handler ::
  "(json \<Rightarrow> string) \<Rightarrow> (string \<Rightarrow> exn + int) \<Rightarrow> 's services \<Rightarrow> json \<Rightarrow> 's agriwebb
     \<Rightarrow> (exn + json) \<times> 's agriwebb" where
  "lambda_handler py_str py_int env event w =
     (case event of
        JDict ev \<Rightarrow>
          (let event_time = dict_get ev ''time'' (JStr ''N/A'')
           in case get_parameter_from_ssm (ssm env) TEMPEST_TOKEN_PARAMETER of
                Inl e \<Rightarrow> (Inl e, w)
              | Inr tempest_token \<Rightarrow>
                  (case get_parameter_from_ssm (ssm env) TEMPEST_STATION_ID_PARAMETER of
                     Inl e \<Rightarrow> (Inl e, w)
                   | Inr tempest_station_id \<Rightarrow>
                       (case get_yesterday_rainfall_data (tempest_get env) (now_at_fetch env)
                               tempest_token tempest_station_id of
                          Inl e \<Rightarrow> (Inl e, w)
                        | Inr ((rainfall_observations, api_response), logs) \<Rightarrow>
                            (case extract_precip_accum_local_yesterday py_int api_response of
                               Inl e \<Rightarrow> (Inl e, w)
                             | Inr rainfall_mm \<Rightarrow>
                                 (if rainfall_mm \<noteq> JNull
                                  then publish_rainfall py_str env event_time
                                         rainfall_observations rainfall_mm w
                                  else (Inr (partial_result event_time rainfall_observations),
                                        w))))))
      | _ \<Rightarrow> (Inl AttributeError, w))"

section \<open>Two farm APIs to run the code against\<close>

text \<open>
  A farm API that holds map features and answers the two documents as their text reads:
  \<^verbatim>\<open>mapFeatures\<close> returns, in stored order, the features that pass the two equality
  filters of the query, with the four selected fields; \<^verbatim>\<open>addRainfalls\<close> returns the
  selected \<^verbatim>\<open>time\<close> and \<^verbatim>\<open>mode\<close> of the rainfall it was given.
\<close>

record map_feature =
  feature_id :: string
  feature_name :: string
  feature_type :: string
  feature_farmId :: string

definition feature_json :: "map_feature \<Rightarrow> json" where
  "feature_json f =
     JDict [(''id'', JStr (feature_id f)), (''name'', JStr (feature_name f)),
            (''type'', JStr (feature_type f)), (''farmId'', JStr (feature_farmId f))]"

definition farm_api :: "agriwebb_post \<Rightarrow> map_feature list \<Rightarrow> http_outcome \<times> map_feature list" where
  "farm_api req features =
     (case query req of
        MapFeatures_query ty farm \<Rightarrow>
          (Body (JDict [(''data'', JDict [(''mapFeatures'',
             JList (map feature_json
               (filter (\<lambda>f. feature_type f = ty \<and> feature_farmId f = farm) features)))])]),
           features)
      | AddRainfalls_mutation inp \<Rightarrow>
          (Body (JDict [(''data'', JDict [(''addRainfalls'', JDict [(''rainfalls'',
             JList [JDict [(''time'', JInt (rf_time inp)),
                           (''mode'', JStr (rf_mode inp))]])])])]),
           features))"

text \<open>An API that gives prepared outcomes in order, and no response once they are used up.\<close>

definition scripted_api :: "agriwebb_post \<Rightarrow> http_outcome list \<Rightarrow> http_outcome \<times> http_outcome list" where
  "scripted_api req outcomes =
     (case outcomes of
        [] \<Rightarrow> (Transport_failure, [])
      | r # rs \<Rightarrow> (r, rs))"

section \<open>Builtins to run the code with\<close>

text \<open>
  The extractor and the publisher take \<^verbatim>\<open>int\<close> and \<^verbatim>\<open>str\<close> as parameters, and every
  general statement below holds for all of them. To run the code on a concrete input the
  parameters need a value. \<open>decimal_int\<close> reads a string of one to eighteen ASCII digits
  as the number it writes, which is what \<^verbatim>\<open>int\<close> returns on such a string; on any other
  string it raises ValueError, which \<^verbatim>\<open>int\<close> does on some of them only, so it is used
  only on inputs whose \<^verbatim>\<open>field_map\<close> keys are such digit strings. \<open>str_placeholder\<close>
  gives a fixed text and is used only where \<^verbatim>\<open>str\<close> is not called.
\<close>

definition ascii_digit :: "char \<Rightarrow> bool" where
  "ascii_digit c = (48 \<le> (of_char c :: nat) \<and> (of_char c :: nat) \<le> 57)"

definition decimal_int :: "string \<Rightarrow> exn + int" where
  "decimal_int s =
     (if s \<noteq> [] \<and> length s \<le> 18 \<and> list_all ascii_digit s
      then Inr (foldl (\<lambda>a c. 10 * a + (int (of_char c) - 48)) 0 s)
      else Inl (ValueError ''invalid literal for int() with base 10''))"

definition str_placeholder :: "json \<Rightarrow> string" where
  "str_placeholder err = ''{}''"

text \<open>The index a warning of the normalization loop reports.\<close>

fun warning_index :: "warning \<Rightarrow> nat" where
  "warning_index (Unexpected_observation_format i) = i"
| "warning_index (Error_processing_observation i e) = i"

section \<open>Properties of the extractor\<close>

lemma probe_summary_no_value:
  assumes "\<And>s. x = JDict s \<Longrightarrow> map_of s PRECIP_KEY = None"
  shows "probe_summary x \<noteq> Inr (Some v)"
  using assms
  by (cases x) (auto simp: probe_summary_def split: sum.splits bool.splits option.splits)

lemma probe_summary_dict_value:
  "map_of s PRECIP_KEY = Some v \<Longrightarrow> probe_summary (JDict s) = Inr (Some v)"
  by (auto simp: probe_summary_def)

lemma decimal_int_5: "decimal_int ''5'' = Inr 5"
  by (simp add: decimal_int_def ascii_digit_def)

lemma seq_index_last: "xs \<noteq> [] \<Longrightarrow> seq_index xs (- 1) = Inr (last xs)"
  by (cases xs rule: rev_cases) (auto simp: seq_index_def Let_def nth_append)

lemma probe_field_map_no_value:
  assumes "\<And>fm i. map_of d ''field_map'' = Some (JDict fm) \<Longrightarrow>
             find_field_index py_int fm = Inr (Some i) \<Longrightarrow>
             i < - int (length ys) \<or> int (length ys) \<le> i"
  shows "probe_field_map py_int d ys \<noteq> Inr (Some v)"
proof (cases "map_of d ''field_map''")
  case None
  then show ?thesis by (simp add: probe_field_map_def dict_get_def)
next
  case (Some fmv)
  note fmv = this
  show ?thesis
  proof (cases "\<exists>fm. fmv = JDict fm")
    case False
    with fmv show ?thesis
      by (cases fmv) (auto simp: probe_field_map_def dict_get_def)
  next
    case True
    then obtain fm where fm: "fmv = JDict fm" by blast
    show ?thesis
    proof (cases "find_field_index py_int fm")
      case (Inl e)
      with fmv fm show ?thesis by (simp add: probe_field_map_def dict_get_def)
    next
      case (Inr oi)
      show ?thesis
      proof (cases oi)
        case None
        with fmv fm Inr show ?thesis by (simp add: probe_field_map_def dict_get_def)
      next
        case (Some i)
        with assms[of fm i] fmv fm Inr
        have "i < - int (length ys) \<or> int (length ys) \<le> i" by simp
        with Some fmv fm Inr show ?thesis
          by (auto simp: probe_field_map_def dict_get_def seq_index_def Let_def)
      qed
    qed
  qed
qed

lemma probe_latest_obs_no_value:
  assumes "map_of d ''obs'' = Some (JList xs)" "xs \<noteq> []"
    and "\<And>m. last xs = JDict m \<Longrightarrow> map_of m PRECIP_KEY = None"
    and "\<And>ys fm i. last xs = JList ys \<Longrightarrow> map_of d ''field_map'' = Some (JDict fm) \<Longrightarrow>
             find_field_index py_int fm = Inr (Some i) \<Longrightarrow>
             i < - int (length ys) \<or> int (length ys) \<le> i"
  shows "probe_latest_obs py_int d \<noteq> Inr (Some v)"
proof -
  have step: "probe_latest_obs py_int d =
      (case last xs of
         JDict m \<Rightarrow> (case map_of m PRECIP_KEY of Some v \<Rightarrow> Inr (Some v) | None \<Rightarrow> Inr None)
       | JList ys \<Rightarrow> (if length ys > 0 then probe_field_map py_int d ys else Inr None)
       | _ \<Rightarrow> Inr None)"
    using assms(1,2) by (simp add: probe_latest_obs_def dict_get_def seq_index_last)
  show ?thesis
  proof (cases "last xs")
    case (JDict m)
    with assms(3) step show ?thesis by simp
  next
    case (JList ys)
    with assms(4) have "probe_field_map py_int d ys \<noteq> Inr (Some v)"
      by (intro probe_field_map_no_value) blast
    with JList step show ?thesis by simp
  next
    case JNull
    with step show ?thesis by simp
  next
    case (JBool b)
    with step show ?thesis by simp
  next
    case (JInt i)
    with step show ?thesis by simp
  next
    case (JFloat r)
    with step show ?thesis by simp
  next
    case (JStr s)
    with step show ?thesis by simp
  qed
qed

text \<open>
  C1, as stated, fails: the latest observation is a mapping without the key, there is no
  \<^verbatim>\<open>summary\<close> and no \<^verbatim>\<open>obs_summary\<close>, and the extractor still returns a value, the one
  under the top-level key (the check of lines 156--160 runs after the observation check).
\<close>

theorem extract_root_level_counterexample:
  "extract_precip_accum_local_yesterday decimal_int
     (JDict [(''obs'', JList [JDict [(''air_temperature'', JInt 20)]]),
             (''precip_accum_local_yesterday'', JInt 7)]) = Inr (JInt 7)"
  by (simp add: extract_precip_accum_local_yesterday_def extract_body_def dict_get_def
        probe_summary_def probe_latest_obs_def seq_index_def PRECIP_KEY_def)

text \<open>
  C1, amended: when \<^verbatim>\<open>obs\<close> is a non-empty list whose last element, if a mapping, lacks
  the key and, if an array, gets no in-range index from \<^verbatim>\<open>field_map\<close> (no entry names
  the key, or \<^verbatim>\<open>int\<close> of the first such entry's key raises or is an index outside the
  array), when neither \<^verbatim>\<open>summary\<close> nor \<^verbatim>\<open>obs_summary\<close> is a mapping with the key, and
  when the top-level mapping has no such key either, the extractor returns \<^verbatim>\<open>None\<close>.
  This holds whatever \<^verbatim>\<open>int\<close> does on a string: \<open>py_int\<close> is arbitrary.
\<close>

theorem extract_absent_without_root_key:
  assumes "map_of d ''obs'' = Some (JList xs)" and "xs \<noteq> []"
    and "\<forall>m. last xs = JDict m \<longrightarrow> map_of m PRECIP_KEY = None"
    and "\<forall>ys fm i. last xs = JList ys \<longrightarrow> map_of d ''field_map'' = Some (JDict fm) \<longrightarrow>
           find_field_index py_int fm = Inr (Some i) \<longrightarrow>
           i < - int (length ys) \<or> int (length ys) \<le> i"
    and "\<forall>s. map_of d ''summary'' = Some (JDict s) \<longrightarrow> map_of s PRECIP_KEY = None"
    and "\<forall>s. map_of d ''obs_summary'' = Some (JDict s) \<longrightarrow> map_of s PRECIP_KEY = None"
    and "map_of d PRECIP_KEY = None"
  shows "extract_precip_accum_local_yesterday py_int (JDict d) = Inr JNull"
proof -
  have a: "probe_summary (dict_get d ''summary'' (JDict [])) \<noteq> Inr (Some v)" for v
    using assms(5)
    by (intro probe_summary_no_value) (auto simp: dict_get_def split: option.splits)
  have b: "probe_summary (dict_get d ''obs_summary'' (JDict [])) \<noteq> Inr (Some v)" for v
    using assms(6)
    by (intro probe_summary_no_value) (auto simp: dict_get_def split: option.splits)
  have c: "probe_latest_obs py_int d \<noteq> Inr (Some v)" for v
    using assms(1-4) by (intro probe_latest_obs_no_value[of d xs]) blast+
  show ?thesis
    using a b c assms(7)
    by (auto simp: extract_precip_accum_local_yesterday_def extract_body_def
             split: sum.splits option.splits)
qed

theorem extract_absent_without_root_key_witness:
  "extract_precip_accum_local_yesterday decimal_int
     (JDict [(''obs'', JList [JList [JInt 1762128000, JFloat (1 / 2)]]),
             (''field_map'', JDict [(''0'', JStr ''time''), (''5'', JStr PRECIP_KEY)]),
             (''summary'', JDict [(''precip_total'', JInt 3)])]) = Inr JNull"
  by (rule extract_absent_without_root_key
            [where xs = "[JList [JInt 1762128000, JFloat (1 / 2)]]"])
     (auto simp: decimal_int_5 PRECIP_KEY_def)

text \<open>
  C3: when both the \<^verbatim>\<open>summary\<close> mapping and the \<^verbatim>\<open>obs_summary\<close> mapping hold the key, the
  extractor returns the value stored under \<^verbatim>\<open>summary\<close>.
\<close>

theorem summary_wins_over_obs_summary:
  assumes "map_of d ''summary'' = Some (JDict s)" and "map_of s PRECIP_KEY = Some v"
    and "map_of d ''obs_summary'' = Some (JDict os)" and "map_of os PRECIP_KEY = Some w"
  shows "extract_precip_accum_local_yesterday py_int (JDict d) = Inr v"
  using assms(1,2)
  by (simp add: extract_precip_accum_local_yesterday_def extract_body_def dict_get_def
        probe_summary_dict_value)

theorem summary_wins_over_obs_summary_witness:
  "extract_precip_accum_local_yesterday decimal_int
     (JDict [(''obs_summary'', JDict [(PRECIP_KEY, JInt 9)]),
             (''summary'', JDict [(PRECIP_KEY, JInt 3)])]) = Inr (JInt 3)"
  by (rule summary_wins_over_obs_summary
            [where s = "[(PRECIP_KEY, JInt 3)]" and os = "[(PRECIP_KEY, JInt 9)]"
               and w = "JInt 9"])
     simp_all

text \<open>
  C7: on every input the extractor returns, a value or \<^verbatim>\<open>None\<close>; whatever the body of
  its \<^verbatim>\<open>try\<close> raises on a shape it does not expect comes out as \<^verbatim>\<open>None\<close>.
\<close>

theorem extract_never_raises:
  "(\<exists>v. extract_precip_accum_local_yesterday py_int r = Inr v) \<and>
   (\<forall>e. extract_body py_int r = Inl e \<longrightarrow>
        extract_precip_accum_local_yesterday py_int r = Inr JNull)"
  by (auto simp: extract_precip_accum_local_yesterday_def split: sum.splits)

theorem extract_never_raises_witness:
  "extract_body decimal_int (JDict [(''summary'', JInt 5)]) = Inl TypeError \<and>
   extract_precip_accum_local_yesterday decimal_int (JDict [(''summary'', JInt 5)]) =
     Inr JNull"
proof -
  have h: "extract_body decimal_int (JDict [(''summary'', JInt 5)]) = Inl TypeError"
    by (simp add: extract_body_def dict_get_def probe_summary_def)
  from extract_never_raises [of decimal_int "JDict [(''summary'', JInt 5)]"] h
  show ?thesis by blast
qed

section \<open>Properties of the fetcher's normalization\<close>

lemma normalize_step_no_empty_wrapper:
  "normalize_step idx obs = Inr (ws, logs) \<Longrightarrow> observation_wrapper ts (JList []) \<notin> set ws"
  by (cases obs) (auto simp: normalize_step_def observation_wrapper_def split: if_splits sum.splits)

lemma normalize_step_length:
  "normalize_step idx obs = Inr (ws, logs) \<Longrightarrow>
     length ws \<le> 1 \<and> (obs = JList [] \<longrightarrow> ws = [] \<and> logs = [])"
  by (cases obs) (auto simp: normalize_step_def split: if_splits sum.splits)

lemma normalize_step_total: "\<exists>r. normalize_step idx obs = Inr r"
  by (cases obs) (auto simp: normalize_step_def seq_index_def split: if_splits sum.splits)

lemma normalize_step_logs:
  "normalize_step idx obs = Inr (ws, logs) \<Longrightarrow> g \<in> set logs \<Longrightarrow>
     warning_index g = idx \<and> obs \<noteq> JList []"
  by (cases obs) (auto simp: normalize_step_def split: if_splits sum.splits)

lemma normalize_from_no_empty_wrapper:
  "observation_wrapper ts (JList []) \<notin> set (fst (normalize_from idx xs))"
proof (induction xs arbitrary: idx)
  case Nil
  show ?case by simp
next
  case (Cons obs xs)
  obtain ws logs where s: "normalize_step idx obs = Inr (ws, logs)"
    using normalize_step_total[of idx obs] by force
  with Cons[of "Suc idx"] normalize_step_no_empty_wrapper[OF s, of ts]
  show ?case by (auto simp: split_def Let_def)
qed

lemma normalize_from_length:
  "length (fst (normalize_from idx xs)) + count_list xs (JList []) \<le> length xs"
proof (induction xs arbitrary: idx)
  case Nil
  show ?case by simp
next
  case (Cons obs xs)
  obtain ws logs where s: "normalize_step idx obs = Inr (ws, logs)"
    using normalize_step_total[of idx obs] by force
  with Cons[of "Suc idx"] normalize_step_length[OF s]
  show ?case by (auto simp: split_def Let_def)
qed

lemma normalize_from_logs:
  "g \<in> set (snd (normalize_from idx xs)) \<Longrightarrow>
     idx \<le> warning_index g \<and> warning_index g < idx + length xs \<and>
     xs ! (warning_index g - idx) \<noteq> JList []"
proof (induction xs arbitrary: idx)
  case Nil
  then show ?case by simp
next
  case (Cons obs xs)
  obtain ws logs where s: "normalize_step idx obs = Inr (ws, logs)"
    using normalize_step_total[of idx obs] by force
  from Cons.prems s have "g \<in> set logs \<or> g \<in> set (snd (normalize_from (Suc idx) xs))"
    by (auto simp: split_def Let_def)
  then show ?case
  proof
    assume "g \<in> set logs"
    with normalize_step_logs[OF s] show ?thesis by auto
  next
    assume "g \<in> set (snd (normalize_from (Suc idx) xs))"
    from Cons.IH[OF this]
    have ih: "Suc idx \<le> warning_index g" "warning_index g < Suc idx + length xs"
      "xs ! (warning_index g - Suc idx) \<noteq> JList []" by auto
    from ih(1) have "warning_index g - idx = Suc (warning_index g - Suc idx)" by arith
    with ih show ?thesis by simp
  qed
qed

text \<open>
  C10: an observation that is an empty array gets no wrapper and no warning, so the
  normalized list, whose length the handler reports as \<^verbatim>\<open>observations_count\<close>, is
  strictly shorter than the raw list as soon as the raw list holds an empty array.
\<close>

theorem empty_observations_dropped_silently:
  assumes "response_observations data = JList xs"
  shows "\<exists>ws logs. normalize_response data = Inr ((ws, data), logs) \<and>
           (\<forall>ts. observation_wrapper ts (JList []) \<notin> set ws) \<and>
           (\<forall>k<length xs. xs ! k = JList [] \<longrightarrow> (\<forall>g\<in>set logs. warning_index g \<noteq> k)) \<and>
           length ws + count_list xs (JList []) \<le> length xs \<and>
           (JList [] \<in> set xs \<longrightarrow> length ws < length xs)"
proof -
  obtain ws logs where n: "normalize_from 0 xs = (ws, logs)" by force
  have r: "normalize_response data = Inr ((ws, data), logs)"
    using assms n by (simp add: normalize_response_def)
  have a: "\<forall>ts. observation_wrapper ts (JList []) \<notin> set ws"
    using normalize_from_no_empty_wrapper[of _ 0 xs] n by simp
  have b: "\<forall>k<length xs. xs ! k = JList [] \<longrightarrow> (\<forall>g\<in>set logs. warning_index g \<noteq> k)"
    using normalize_from_logs[of _ 0 xs] n by auto
  have c: "length ws + count_list xs (JList []) \<le> length xs"
    using normalize_from_length[of 0 xs] n by simp
  have d: "length ws < length xs" if "JList [] \<in> set xs"
  proof -
    from that have "count_list xs (JList []) \<noteq> 0" by (simp add: count_list_0_iff)
    with c show ?thesis by arith
  qed
  from r a b c d show ?thesis by blast
qed

theorem empty_observations_dropped_silently_witness:
  "\<exists>ws logs.
     normalize_response
       (JDict [(''obs'', JList [JList [], JList [JInt 1762128000, JInt 0]])]) =
     Inr ((ws, JDict [(''obs'', JList [JList [], JList [JInt 1762128000, JInt 0]])]), logs) \<and>
     length ws < 2"
  using empty_observations_dropped_silently
          [of "JDict [(''obs'', JList [JList [], JList [JInt 1762128000, JInt 0]])]"
              "[JList [], JList [JInt 1762128000, JInt 0]]"]
  by (auto simp: response_observations_def dict_get_def)

section \<open>Properties of the sensor lookup and the publisher\<close>

lemma check_graphql_errors_fails:
  assumes "map_of d ''errors'' = Some v"
  shows "\<exists>e. check_graphql_errors py_str (JDict d) = Inl e"
  using assms by (auto simp: check_graphql_errors_def split: sum.splits)

lemma check_graphql_errors_empty:
  assumes "map_of d ''errors'' = Some (JList [])"
  shows "check_graphql_errors py_str (JDict d) = Inl (ValueError ''GraphQL errors: '')"
  using assms by (simp add: check_graphql_errors_def)

lemma error_messages_of_objects:
  assumes "\<forall>err\<in>set errs. \<exists>m. err = JDict m"
  shows "error_messages py_str errs =
           Inr (map (\<lambda>err. case err of JDict m \<Rightarrow> dict_get m ''message'' (JStr (py_str err))
                                | _ \<Rightarrow> JNull) errs)"
  using assms by (induction errs) auto

lemma py_join_strings:
  "\<exists>j. py_join sep (map JStr ss) = Inr j \<and> (\<forall>s\<in>set ss. sublist s j)"
proof (induction ss)
  case Nil
  show ?case by simp
next
  case (Cons a ss)
  then obtain j where j: "py_join sep (map JStr ss) = Inr j" "\<forall>s\<in>set ss. sublist s j"
    by blast
  show ?case
  proof (cases ss)
    case Nil
    then show ?thesis by simp
  next
    case (Cons b ss')
    with j(1) have "py_join sep (map JStr (a # ss)) = Inr (a @ sep @ j)" by simp
    moreover have "sublist a (a @ sep @ j)" by (rule sublist_append_rightI)
    moreover have "sublist s (a @ sep @ j)" if "sublist s j" for s
    proof -
      from that obtain ps ts where "j = ps @ s @ ts" by (auto simp: sublist_def)
      then have "a @ sep @ j = (a @ sep @ ps) @ s @ ts" by simp
      then show ?thesis by (metis sublist_appendI)
    qed
    ultimately show ?thesis using j(2) by auto
  qed
qed

lemma resolve_then_post:
  assumes "resolve_sensor_id api tok farm w = (Inr sid, w1)"
    and "requests_post api (rainfall_mutation tok farm sid inches ms) w1 = (Body result, w2)"
  shows "update_rainfall py_str api tok farm inches ms w = (check_graphql_errors py_str result, w2)"
  using assms by (simp add: update_rainfall_def post_rainfall_def)
lemma lookup_one_gauge:
  "get_rain_gauge_sensor_id scripted_api ''key'' ''farm-1''
     \<lparr>api_state = Body (JDict [(''data'', JDict [(''mapFeatures'',
                       JList [JDict [(''id'', JStr ''gauge-1'')]])])]) # rest,
      posted = []\<rparr> =
   (Inr (JStr ''gauge-1''),
    \<lparr>api_state = rest,
     posted = [\<lparr>x_api_key = ''key'', query = MapFeatures_query ''RAIN_GAUGE'' ''farm-1''\<rparr>]\<rparr>)"
  by (simp add: get_rain_gauge_sensor_id_def requests_post_def scripted_api_def
        first_feature_id_def seq_index_def)

lemma resolve_one_gauge:
  "resolve_sensor_id scripted_api ''key'' ''farm-1''
     \<lparr>api_state = Body (JDict [(''data'', JDict [(''mapFeatures'',
                       JList [JDict [(''id'', JStr ''gauge-1'')]])])]) # rest,
      posted = []\<rparr> =
   (Inr (JStr ''gauge-1''),
    \<lparr>api_state = rest,
     posted = [\<lparr>x_api_key = ''key'', query = MapFeatures_query ''RAIN_GAUGE'' ''farm-1''\<rparr>]\<rparr>)"
  by (simp add: resolve_sensor_id_def lookup_one_gauge)

lemma lookup_posts_once:
  "get_rain_gauge_sensor_id api tok farm w = (r, w1) \<Longrightarrow>
     posted w1 = posted w @ [\<lparr>x_api_key = tok, query = MapFeatures_query ''RAIN_GAUGE'' farm\<rparr>]"
  by (auto simp: get_rain_gauge_sensor_id_def requests_post_def split_def Let_def
           split: sum.splits)

text \<open>
  C2 does not hold of the code. The query filters on the type tag and the farm only, and
  the first feature of the answer is taken: on a farm whose only rain gauge is named
  ``North paddock'', the lookup returns that gauge's identifier, although the name is not
  \<open>RAIN_GAUGE_NAME\<close>.
\<close>
theorem sensor_lookup_ignores_gauge_name:
  "get_rain_gauge_sensor_id farm_api ''key'' ''farm-1''
     \<lparr>api_state = [\<lparr>feature_id = ''gauge-7'', feature_name = ''North paddock'',
                     feature_type = ''RAIN_GAUGE'', feature_farmId = ''farm-1''\<rparr>],
      posted = []\<rparr> =
   (Inr (JStr ''gauge-7''),
    \<lparr>api_state = [\<lparr>feature_id = ''gauge-7'', feature_name = ''North paddock'',
                    feature_type = ''RAIN_GAUGE'', feature_farmId = ''farm-1''\<rparr>],
     posted = [\<lparr>x_api_key = ''key'', query = MapFeatures_query ''RAIN_GAUGE'' ''farm-1''\<rparr>]\<rparr>) \<and>
   ''North paddock'' \<noteq> RAIN_GAUGE_NAME"
  by (simp add: get_rain_gauge_sensor_id_def requests_post_def farm_api_def
        first_feature_id_def feature_json_def seq_index_def RAIN_GAUGE_NAME_def)

text \<open>
  C4 does not hold of the code. When the first lookup finds no gauge, \<^verbatim>\<open>update_rainfall\<close>
  raises NameError at the call of \<^verbatim>\<open>create_rain_gauge\<close>: the lookup is the only post,
  nothing is created, there is no second lookup and the ValueError of line 146 is never
  reached.
\<close>

theorem update_rainfall_creation_raises_name_error:
  assumes "get_rain_gauge_sensor_id api tok farm w = (Inr JNull, w1)"
  shows "update_rainfall py_str api tok farm inches ms w =
           (Inl (NameError ''create_rain_gauge''), w1) \<and>
         posted w1 =
           posted w @ [\<lparr>x_api_key = tok, query = MapFeatures_query ''RAIN_GAUGE'' farm\<rparr>]"
  using assms lookup_posts_once[OF assms]
  by (simp add: update_rainfall_def resolve_sensor_id_def create_rain_gauge_def)

theorem update_rainfall_creation_raises_name_error_witness:
  "update_rainfall (\<lambda>j. ''{}'') farm_api ''key'' ''farm-1'' (1 / 2) 1762128000000
     \<lparr>api_state = [], posted = []\<rparr> =
   (Inl (NameError ''create_rain_gauge''),
    \<lparr>api_state = [],
     posted = [\<lparr>x_api_key = ''key'', query = MapFeatures_query ''RAIN_GAUGE'' ''farm-1''\<rparr>]\<rparr>)"
proof -
  have h: "get_rain_gauge_sensor_id farm_api ''key'' ''farm-1'' \<lparr>api_state = [], posted = []\<rparr> =
      (Inr JNull,
       \<lparr>api_state = [],
        posted = [\<lparr>x_api_key = ''key'', query = MapFeatures_query ''RAIN_GAUGE'' ''farm-1''\<rparr>]\<rparr>)"
    by (simp add: get_rain_gauge_sensor_id_def requests_post_def farm_api_def
          first_feature_id_def)
  from update_rainfall_creation_raises_name_error [OF h] show ?thesis by simp
qed

text \<open>
  C5, as stated, fails: line 189 calls \<^verbatim>\<open>err.get\<close> on every entry of the list and line
  190 joins what it gets. On a list of plain strings the publisher raises AttributeError,
  and on a list with an error whose \<^verbatim>\<open>message\<close> is \<^verbatim>\<open>null\<close> it raises TypeError; neither
  exception carries the error strings of the list.
\<close>

theorem graphql_errors_not_aggregated_counterexample:
  "update_rainfall str_placeholder scripted_api ''key'' ''farm-1'' (1 / 2) 1762128000000
     \<lparr>api_state =
        [Body (JDict [(''data'', JDict [(''mapFeatures'',
                 JList [JDict [(''id'', JStr ''gauge-1'')]])])]),
         Body (JDict [(''errors'', JList [JStr ''bad sensor'', JStr ''bad time''])])],
      posted = []\<rparr> =
   (Inl AttributeError,
    \<lparr>api_state = [],
     posted = [\<lparr>x_api_key = ''key'', query = MapFeatures_query ''RAIN_GAUGE'' ''farm-1''\<rparr>,
               rainfall_mutation ''key'' ''farm-1'' (JStr ''gauge-1'') (1 / 2) 1762128000000]\<rparr>) \<and>
   update_rainfall str_placeholder scripted_api ''key'' ''farm-1'' (1 / 2) 1762128000000
     \<lparr>api_state =
        [Body (JDict [(''data'', JDict [(''mapFeatures'',
                 JList [JDict [(''id'', JStr ''gauge-1'')]])])]),
         Body (JDict [(''errors'', JList [JDict [(''message'', JStr ''bad sensor'')],
                                          JDict [(''message'', JNull)]])])],
      posted = []\<rparr> =
   (Inl TypeError,
    \<lparr>api_state = [],
     posted = [\<lparr>x_api_key = ''key'', query = MapFeatures_query ''RAIN_GAUGE'' ''farm-1''\<rparr>,
               rainfall_mutation ''key'' ''farm-1'' (JStr ''gauge-1'') (1 / 2) 1762128000000]\<rparr>)"
  by (simp add: update_rainfall_def resolve_one_gauge post_rainfall_def requests_post_def
        scripted_api_def check_graphql_errors_def dict_get_def)

text \<open>
  C5, amended: when the sensor is resolved and the mutation's response is a decoded
  mapping whose \<^verbatim>\<open>errors\<close> is a non-empty list of error objects, each a mapping whose
  \<^verbatim>\<open>message\<close>, if it has one, is a string, \<^verbatim>\<open>update_rainfall\<close> raises one ValueError, and
  its message ``GraphQL errors: ...'' contains the text of every error of the list: its
  \<^verbatim>\<open>message\<close>, or \<^verbatim>\<open>str(err)\<close> when it has none.
\<close>
theorem graphql_errors_aggregated:
  assumes "resolve_sensor_id api tok farm w = (Inr sid, w1)"
    and "requests_post api (rainfall_mutation tok farm sid inches ms) w1 = (Body (JDict d), w2)"
    and "map_of d ''errors'' = Some (JList errs)" and "errs \<noteq> []"
    and "\<forall>err\<in>set errs. \<exists>m. err = JDict m \<and>
           (\<exists>s. dict_get m ''message'' (JStr (py_str err)) = JStr s)"
  shows "\<exists>joined. update_rainfall py_str api tok farm inches ms w =
           (Inl (ValueError (''GraphQL errors: '' @ joined)), w2) \<and>
         (\<forall>m s. JDict m \<in> set errs \<longrightarrow>
                dict_get m ''message'' (JStr (py_str (JDict m))) = JStr s \<longrightarrow>
                sublist s joined)"
proof -
  define text_of where
    "text_of err = (case err of
        JDict m \<Rightarrow> (case dict_get m ''message'' (JStr (py_str err)) of JStr s \<Rightarrow> s | _ \<Rightarrow> [])
      | _ \<Rightarrow> [])" for err
  have objs: "\<forall>err\<in>set errs. \<exists>m. err = JDict m" using assms(5) by blast
  have "map (\<lambda>err. case err of JDict m \<Rightarrow> dict_get m ''message'' (JStr (py_str err))
                                | _ \<Rightarrow> JNull) errs = map JStr (map text_of errs)"
    using assms(5) by (auto simp: text_of_def)
  with error_messages_of_objects[OF objs, of py_str]
  have ms: "error_messages py_str errs = Inr (map JStr (map text_of errs))" by simp
  obtain joined where j: "py_join '', '' (map JStr (map text_of errs)) = Inr joined"
    "\<forall>s\<in>set (map text_of errs). sublist s joined"
    using py_join_strings[of "'', ''" "map text_of errs"] by blast
  have "check_graphql_errors py_str (JDict d) = Inl (ValueError (''GraphQL errors: '' @ joined))"
    using assms(3) ms j(1) by (simp add: check_graphql_errors_def)
  with resolve_then_post[OF assms(1,2), of py_str]
  have r: "update_rainfall py_str api tok farm inches ms w =
        (Inl (ValueError (''GraphQL errors: '' @ joined)), w2)" by simp
  have "sublist s joined"
    if "JDict m \<in> set errs" "dict_get m ''message'' (JStr (py_str (JDict m))) = JStr s" for m s
  proof -
    from that have "text_of (JDict m) = s" by (simp add: text_of_def)
    with that(1) have "s \<in> set (map text_of errs)" by force
    with j(2) show ?thesis by blast
  qed
  with r show ?thesis by blast
qed

theorem graphql_errors_aggregated_witness:
  "\<exists>joined.
     update_rainfall (\<lambda>j. ''{}'') scripted_api ''key'' ''farm-1'' (1 / 2) 1762128000000
       \<lparr>api_state =
          [Body (JDict [(''data'', JDict [(''mapFeatures'',
                   JList [JDict [(''id'', JStr ''gauge-1'')]])])]),
           Body (JDict [(''errors'',
                   JList [JDict [(''message'', JStr ''bad sensor'')],
                          JDict [(''message'', JStr ''bad time'')]])])],
        posted = []\<rparr> =
     (Inl (ValueError (''GraphQL errors: '' @ joined)),
      \<lparr>api_state = [],
       posted = [\<lparr>x_api_key = ''key'', query = MapFeatures_query ''RAIN_GAUGE'' ''farm-1''\<rparr>,
                 rainfall_mutation ''key'' ''farm-1'' (JStr ''gauge-1'') (1 / 2) 1762128000000]\<rparr>) \<and>
     sublist ''bad sensor'' joined \<and> sublist ''bad time'' joined"
proof -
  let ?errs = "[JDict [(''message'', JStr ''bad sensor'')],
                JDict [(''message'', JStr ''bad time'')]]"
  let ?reply = "Body (JDict [(''errors'', JList ?errs)])"
  let ?w1 = "\<lparr>api_state = [?reply],
     posted = [\<lparr>x_api_key = ''key'', query = MapFeatures_query ''RAIN_GAUGE'' ''farm-1''\<rparr>]\<rparr>"
  let ?w2 = "\<lparr>api_state = [],
       posted = [\<lparr>x_api_key = ''key'', query = MapFeatures_query ''RAIN_GAUGE'' ''farm-1''\<rparr>,
                 rainfall_mutation ''key'' ''farm-1'' (JStr ''gauge-1'') (1 / 2) 1762128000000]\<rparr>"
  have h2: "requests_post scripted_api
              (rainfall_mutation ''key'' ''farm-1'' (JStr ''gauge-1'') (1 / 2) 1762128000000) ?w1 =
            (Body (JDict [(''errors'', JList ?errs)]), ?w2)"
    by (simp add: requests_post_def scripted_api_def)
  have h3: "map_of [(''errors'', JList ?errs)] ''errors'' = Some (JList ?errs)" by simp
  have h4: "?errs \<noteq> []" by simp
  have h5: "\<forall>err\<in>set ?errs. \<exists>m. err = JDict m \<and>
              (\<exists>s. dict_get m ''message'' (JStr ((\<lambda>j. ''{}'') err)) = JStr s)"
    by (simp add: dict_get_def)
  from graphql_errors_aggregated [OF resolve_one_gauge h2 h3 h4 h5]
  obtain joined where j:
    "update_rainfall (\<lambda>j. ''{}'') scripted_api ''key'' ''farm-1'' (1 / 2) 1762128000000
       \<lparr>api_state = [Body (JDict [(''data'', JDict [(''mapFeatures'',
                   JList [JDict [(''id'', JStr ''gauge-1'')]])])]), ?reply], posted = []\<rparr> =
     (Inl (ValueError (''GraphQL errors: '' @ joined)), ?w2)"
    "\<forall>m s. JDict m \<in> set ?errs \<longrightarrow>
        dict_get m ''message'' (JStr ((\<lambda>j. ''{}'') (JDict m))) = JStr s \<longrightarrow> sublist s joined"
    by blast
  from j(2) [rule_format, of "[(''message'', JStr ''bad sensor'')]" "''bad sensor''"]
  have a: "sublist ''bad sensor'' joined" by (simp add: dict_get_def)
  from j(2) [rule_format, of "[(''message'', JStr ''bad time'')]" "''bad time''"]
  have b: "sublist ''bad time'' joined" by (simp add: dict_get_def)
  from j(1) a b show ?thesis by blast
qed

text \<open>
  C9: when the sensor is resolved and the mutation's response is a decoded mapping with
  the key \<^verbatim>\<open>errors\<close>, \<^verbatim>\<open>update_rainfall\<close> raises, whatever is stored under the key; under
  an empty list the message is ``GraphQL errors: '' with no error text after it.
\<close>
theorem graphql_errors_key_fails:
  assumes "resolve_sensor_id api tok farm w = (Inr sid, w1)"
    and "requests_post api (rainfall_mutation tok farm sid inches ms) w1 = (Body (JDict d), w2)"
    and "map_of d ''errors'' = Some v"
  shows "(\<exists>e. update_rainfall py_str api tok farm inches ms w = (Inl e, w2)) \<and>
         (v = JList [] \<longrightarrow>
            update_rainfall py_str api tok farm inches ms w =
              (Inl (ValueError ''GraphQL errors: ''), w2))"
  using resolve_then_post[OF assms(1,2), of py_str]
    check_graphql_errors_fails[OF assms(3), of py_str]
    check_graphql_errors_empty[of d py_str] assms(3)
  by auto

theorem graphql_errors_key_fails_witness:
  "update_rainfall (\<lambda>j. ''{}'') scripted_api ''key'' ''farm-1'' (1 / 2) 1762128000000
     \<lparr>api_state =
        [Body (JDict [(''data'', JDict [(''mapFeatures'',
                 JList [JDict [(''id'', JStr ''gauge-1'')]])])]),
         Body (JDict [(''data'', JNull), (''errors'', JList [])])],
      posted = []\<rparr> =
   (Inl (ValueError ''GraphQL errors: ''),
    \<lparr>api_state = [],
     posted = [\<lparr>x_api_key = ''key'', query = MapFeatures_query ''RAIN_GAUGE'' ''farm-1''\<rparr>,
               rainfall_mutation ''key'' ''farm-1'' (JStr ''gauge-1'') (1 / 2) 1762128000000]\<rparr>)"
proof -
  let ?reply = "Body (JDict [(''data'', JNull), (''errors'', JList [])])"
  let ?w1 = "\<lparr>api_state = [?reply],
     posted = [\<lparr>x_api_key = ''key'', query = MapFeatures_query ''RAIN_GAUGE'' ''farm-1''\<rparr>]\<rparr>"
  let ?w2 = "\<lparr>api_state = [],
       posted = [\<lparr>x_api_key = ''key'', query = MapFeatures_query ''RAIN_GAUGE'' ''farm-1''\<rparr>,
                 rainfall_mutation ''key'' ''farm-1'' (JStr ''gauge-1'') (1 / 2) 1762128000000]\<rparr>"
  have h2: "requests_post scripted_api
              (rainfall_mutation ''key'' ''farm-1'' (JStr ''gauge-1'') (1 / 2) 1762128000000) ?w1 =
            (Body (JDict [(''data'', JNull), (''errors'', JList [])]), ?w2)"
    by (simp add: requests_post_def scripted_api_def)
  have h3: "map_of [(''data'', JNull), (''errors'', JList [])] ''errors'' = Some (JList [])"
    by simp
  from graphql_errors_key_fails [OF resolve_one_gauge h2 h3, of "\<lambda>j. ''{}''"]
  show ?thesis by simp
qed

section \<open>Properties of the handler\<close>

text \<open>
  C6: when the parameters are read, the fetch succeeds and the extractor returns
  \<^verbatim>\<open>None\<close>, the handler returns a dictionary with \<^verbatim>\<open>status\<close> ``partial_success'',
  \<^verbatim>\<open>agriwebb_updated\<close> false and \<^verbatim>\<open>rainfall_mm\<close> \<^verbatim>\<open>None\<close>, and the farm API is as it
  was: nothing has been posted to it.
\<close>

theorem absent_rainfall_is_partial_success:
  assumes "get_parameter_from_ssm (ssm env) TEMPEST_TOKEN_PARAMETER = Inr tok"
    and "get_parameter_from_ssm (ssm env) TEMPEST_STATION_ID_PARAMETER = Inr station"
    and "get_yesterday_rainfall_data (tempest_get env) (now_at_fetch env) tok station =
           Inr ((observations, api_response), logs)"
    and "extract_precip_accum_local_yesterday py_int api_response = Inr JNull"
  shows "\<exists>r. lambda_handler py_str py_int env (JDict ev) w = (Inr (JDict r), w) \<and>
           map_of r ''status'' = Some (JStr ''partial_success'') \<and>
           map_of r ''agriwebb_updated'' = Some (JBool False) \<and>
           map_of r ''rainfall_mm'' = Some JNull \<and>
           posted (snd (lambda_handler py_str py_int env (JDict ev) w)) = posted w"
  using assms by (simp add: lambda_handler_def partial_result_def)

theorem absent_rainfall_is_partial_success_witness:
  "\<exists>r. lambda_handler (\<lambda>j. ''{}'') decimal_int
          \<lparr>ssm = (\<lambda>name. SSM_value ''secret''),
           tempest_get = (\<lambda>req. Body (JDict [(''obs'', JList [JList []])])),
           agriwebb_api = scripted_api,
           now_at_fetch = 1762257600, now_at_handler = 1762257601\<rparr>
          (JDict [(''time'', JStr ''2025-11-04T12:00:00Z''), (''source'', JStr ''aws.events'')])
          \<lparr>api_state = [], posted = []\<rparr> =
        (Inr (JDict r), \<lparr>api_state = [], posted = []\<rparr>) \<and>
        map_of r ''status'' = Some (JStr ''partial_success'') \<and>
        map_of r ''agriwebb_updated'' = Some (JBool False) \<and>
        map_of r ''rainfall_mm'' = Some JNull"
proof -
  let ?env = "\<lparr>ssm = (\<lambda>name. SSM_value ''secret''),
           tempest_get = (\<lambda>req. Body (JDict [(''obs'', JList [JList []])])),
           agriwebb_api = scripted_api,
           now_at_fetch = 1762257600, now_at_handler = 1762257601\<rparr>"
  have h1: "get_parameter_from_ssm (ssm ?env) TEMPEST_TOKEN_PARAMETER = Inr ''secret''"
    by (simp add: get_parameter_from_ssm_def)
  have h2: "get_parameter_from_ssm (ssm ?env) TEMPEST_STATION_ID_PARAMETER = Inr ''secret''"
    by (simp add: get_parameter_from_ssm_def)
  have h3: "get_yesterday_rainfall_data (tempest_get ?env) (now_at_fetch ?env)
              ''secret'' ''secret'' =
            Inr (([], JDict [(''obs'', JList [JList []])]), [])"
    by (simp add: get_yesterday_rainfall_data_def normalize_response_def
          response_observations_def dict_get_def normalize_step_def)
  have h4: "extract_precip_accum_local_yesterday decimal_int
              (JDict [(''obs'', JList [JList []])]) = Inr JNull"
    by (simp add: extract_precip_accum_local_yesterday_def extract_body_def dict_get_def
          probe_summary_def probe_latest_obs_def seq_index_def PRECIP_KEY_def)
  from absent_rainfall_is_partial_success [OF h1 h2 h3 h4]
  show ?thesis by blast
qed

text \<open>
  C8: the conversion of line 92 takes the float 25.4 to exactly 1.0 (the product is
  \<open>1 - 2\<^sup>-\<^sup>5\<^sup>3\<close>, which \<^verbatim>\<open>round\<close> brings to 1.0) and zero, integer or float, to 0.0.
\<close>

theorem mm_to_inches_fixed_points:
  "mm_to_inches (JFloat (binary64 (254 / 10))) = Inr 1 \<and>
   mm_to_inches (JInt 0) = Inr 0 \<and>
   mm_to_inches (JFloat 0) = Inr 0"
  by code_simp

end
